theory Spec2Isabelle
  imports Main "HOL-Library.Sublist"
begin

section \<open>SQS widgets of the CloudWatch dashboard (cloudwatch_monitoring/sqs.py)\<close>

text \<open>
  The module lists the SQS queue urls of a region page by page, keeps the queues of the
  deploy tier that are tagged as IOW assets, and builds one dashboard widget for each,
  moving a shared positioning object after every widget.

  Python strings are modelled as \<open>string\<close> (lists of characters, ASCII), Python integers
  as \<open>int\<close>, dictionaries with a fixed set of keys as records whose optional keys are
  \<open>option\<close> fields, and exceptions as the left summand of a sum type. Every call of the
  SQS API is appended to a log of calls that is passed through the functions.
\<close>

subsection \<open>Exceptions\<close>

datatype py_error =
    KeyError string
  | IndexError
  | ClientError string

text \<open>Python's class hierarchy: \<open>KeyError\<close> and \<open>IndexError\<close> derive from \<open>LookupError\<close>.\<close>

fun is_LookupError :: "py_error \<Rightarrow> bool" where
  "is_LookupError (KeyError k) = True"
| "is_LookupError IndexError = True"
| "is_LookupError (ClientError m) = False"

subsection \<open>String operations of Python\<close>

text \<open>
  \<open>str.isascii()\<close>: every character of the string is below 128.
\<close>

definition isascii :: "string \<Rightarrow> bool" where
  "isascii s = list_all (\<lambda>c. (of_char c :: nat) < 128) s"

text \<open>
  \<open>str.upper()\<close> on a string of ASCII characters: the letters a to z move to A to Z,
  every other character stays. Outside ASCII Python maps letters as well, some of them
  to characters or strings that the 8-bit characters here cannot hold, so \<open>upper\<close> stands
  for \<open>str.upper()\<close> on strings with \<open>isascii\<close> only, and the properties of the filter
  that speak of the upper-cased deploy stage are stated for such deploy stages (the
  docstring names DEV, TEST, QA and PROD-EXTERNAL).
\<close>

definition char_upper :: "char \<Rightarrow> char" where
  "char_upper c =
     (let n = (of_char c :: nat) in if 97 \<le> n \<and> n \<le> 122 then char_of (n - 32) else c)"

definition upper :: "string \<Rightarrow> string" where
  "upper s = map char_upper s"

text \<open>\<open>a in b\<close> on strings: \<open>a\<close> occurs in \<open>b\<close> as a contiguous substring.\<close>

fun str_in :: "string \<Rightarrow> string \<Rightarrow> bool" where
  "str_in a [] = (a = [])"
| "str_in a (c # cs) = (prefix a (c # cs) \<or> str_in a cs)"

text \<open>\<open>s.split(sep)\<close> for a separator of one character; the result is never empty.\<close>

fun str_split :: "char \<Rightarrow> string \<Rightarrow> string list" where
  "str_split sep [] = [[]]"
| "str_split sep (c # cs) =
     (if c = sep then [] # str_split sep cs
      else (case str_split sep cs of
              [] \<Rightarrow> [[c]]
            | part # parts \<Rightarrow> (c # part) # parts))"

text \<open>\<open>parts[-1]\<close>: the last item, \<open>IndexError\<close> on an empty list.\<close>

definition item_minus_1 :: "'a list \<Rightarrow> py_error + 'a" where
  "item_minus_1 parts = (case parts of [] \<Rightarrow> Inl IndexError | _ # _ \<Rightarrow> Inr (last parts))"

text \<open>
  \<open>s.replace(old, new)\<close>: every occurrence of \<open>old\<close>, found from left to right without
  overlap, is replaced; an empty \<open>old\<close> matches before every character and at the end.
\<close>

function str_replace :: "string \<Rightarrow> string \<Rightarrow> string \<Rightarrow> string" where
  "str_replace old new [] = (if old = [] then new else [])"
| "str_replace old new (c # cs) =
     (if old = [] then new @ concat (map (\<lambda>d. d # new) (c # cs))
      else if prefix old (c # cs) then new @ str_replace old new (drop (length old) (c # cs))
      else c # str_replace old new cs)"
  by pat_completeness auto
termination
  by (relation "measure (\<lambda>(old, new, s). length s)") auto

subsection \<open>The SQS client\<close>

text \<open>
  The responses of \<open>list_queues\<close> and \<open>list_queue_tags\<close> are dictionaries; the keys the
  module reads are \<open>QueueUrls\<close>, \<open>NextToken\<close> and \<open>Tags\<close>, each of which may be missing.
\<close>

record list_queues_response =
  QueueUrls :: "string list option"
  NextToken :: "string option"

record list_queue_tags_response =
  Tags :: "(string \<rightharpoonup> string) option"

text \<open>
  \<open>list_queues\<close> takes \<open>MaxResults\<close> and the optional \<open>NextToken\<close>, \<open>list_queue_tags\<close> takes
  \<open>QueueUrl\<close>; either call may raise. \<open>boto3.client("sqs", region_name=region)\<close> is the
  client of a region.
\<close>

record sqs_client =
  list_queues :: "nat \<Rightarrow> string option \<Rightarrow> py_error + list_queues_response"
  list_queue_tags :: "string \<Rightarrow> py_error + list_queue_tags_response"

type_synonym boto3 = "string \<Rightarrow> sqs_client"

datatype api_call =
    ListQueues string nat "string option"
  | ListQueueTags string string

subsection \<open>get_all_sqs_queue_urls\<close>

text \<open>\<open>if next_token:\<close> is Python's truth test: \<open>None\<close> and the empty string are false.\<close>

definition truthy :: "string option \<Rightarrow> bool" where
  "truthy next_token = (case next_token of None \<Rightarrow> False | Some t \<Rightarrow> t \<noteq> [])"

text \<open>\<open>response.update(response_iterator)\<close>: the keys of the page replace those of the response.\<close>

definition update :: "list_queues_response \<Rightarrow> list_queues_response \<Rightarrow> list_queues_response" where
  "update response response_iterator =
     \<lparr> QueueUrls = (case QueueUrls response_iterator of None \<Rightarrow> QueueUrls response | Some u \<Rightarrow> Some u),
       NextToken = (case NextToken response_iterator of None \<Rightarrow> NextToken response | Some t \<Rightarrow> Some t) \<rparr>"

text \<open>
  The first half of the loop body: one call of \<open>list_queues\<close> and the merge of its page
  into the response. It gives the new response and the page, or the exception raised.
  With a token the call comes first, then \<open>response['QueueUrls']\<close>, then
  \<open>response_iterator['QueueUrls']\<close>; a missing key is a \<open>KeyError\<close> that the \<open>try\<close> around
  \<open>NextToken\<close> does not catch. The list that \<open>extend\<close> grows is the very list of the
  first page; the model copies it, as no later page refers to it.
\<close>

definition fetch_page ::
  "sqs_client \<Rightarrow> list_queues_response \<Rightarrow> string option
     \<Rightarrow> py_error + (list_queues_response \<times> list_queues_response)" where
  "fetch_page sqs_client response next_token =
     (if truthy next_token then
        (case list_queues sqs_client 10 next_token of
           Inl e \<Rightarrow> Inl e
         | Inr response_iterator \<Rightarrow>
             (case QueueUrls response of
                None \<Rightarrow> Inl (KeyError ''QueueUrls'')
              | Some urls \<Rightarrow>
                  (case QueueUrls response_iterator of
                     None \<Rightarrow> Inl (KeyError ''QueueUrls'')
                   | Some page_urls \<Rightarrow>
                       Inr (response\<lparr>QueueUrls := Some (urls @ page_urls)\<rparr>, response_iterator))))
      else
        (case list_queues sqs_client 10 None of
           Inl e \<Rightarrow> Inl e
         | Inr response_iterator \<Rightarrow> Inr (update response response_iterator, response_iterator)))"

text \<open>The request that \<open>fetch_page\<close> sends, for the log of calls.\<close>

definition page_call :: "string \<Rightarrow> string option \<Rightarrow> api_call" where
  "page_call region next_token =
     ListQueues region 10 (if truthy next_token then next_token else None)"

text \<open>
  \<open>while True\<close>: the loop ends when a page has no \<open>NextToken\<close> or when an exception is
  raised; against a service that always sends a token it does not end, which is the
  value \<open>None\<close>.
\<close>

partial_function (option) while_True ::
  "sqs_client \<Rightarrow> string \<Rightarrow> list_queues_response \<Rightarrow> string option \<Rightarrow> api_call list
     \<Rightarrow> ((py_error + list_queues_response) \<times> api_call list) option" where
  "while_True sqs_client region response next_token calls =
     (case fetch_page sqs_client response next_token of
        Inl e \<Rightarrow> Some (Inl e, calls @ [page_call region next_token])
      | Inr (response', response_iterator) \<Rightarrow>
          (case NextToken response_iterator of
             None \<Rightarrow> Some (Inr response', calls @ [page_call region next_token])
           | Some t \<Rightarrow>
               while_True sqs_client region response' (Some t)
                 (calls @ [page_call region next_token])))"

definition get_all_sqs_queue_urls ::
  "boto3 \<Rightarrow> string \<Rightarrow> api_call list
     \<Rightarrow> ((py_error + list_queues_response) \<times> api_call list) option" where
  "get_all_sqs_queue_urls boto3 region calls =
     (let sqs_client = boto3 region
      in while_True sqs_client region \<lparr> QueueUrls = None, NextToken = None \<rparr> None calls)"

subsection \<open>is_iow_queue_filter\<close>

text \<open>
  The tags are fetched only inside the test on the deploy tier; a response without
  \<open>Tags\<close>, or tags without the key, leave \<open>is_iow_queue\<close> at \<open>False\<close>.
\<close>

definition is_iow_queue_filter ::
  "boto3 \<Rightarrow> string \<Rightarrow> string \<Rightarrow> string \<Rightarrow> api_call list
     \<Rightarrow> (py_error + bool) \<times> api_call list" where
  "is_iow_queue_filter boto3 queue_url deploy_stage region calls =
     (let sqs_client = boto3 region
      in if str_in (upper deploy_stage) queue_url then
           (case list_queue_tags sqs_client queue_url of
              Inl e \<Rightarrow> (Inl e, calls @ [ListQueueTags region queue_url])
            | Inr queue_tags \<Rightarrow>
                (Inr (case Tags queue_tags of
                        None \<Rightarrow> False
                      | Some tags \<Rightarrow>
                          (case tags ''wma:organization'' of
                             None \<Rightarrow> False
                           | Some v \<Rightarrow> ''IOW'' = v)),
                 calls @ [ListQueueTags region queue_url]))
         else (Inr False, calls))"

subsection \<open>The positioning object\<close>

text \<open>
  The class of the \<open>positioning\<close> argument is not part of sqs.py; sqs.py reads and writes
  its attributes \<open>x\<close>, \<open>y\<close>, \<open>height\<close> and \<open>width\<close>, and dashboard.py starts from a
  \<open>max_width\<close> of 12.
\<close>

record positioning =
  x :: int
  y :: int
  width :: int
  height :: int
  max_width :: int

text \<open>
  Modelled from the spec: the method \<open>iterate_positioning\<close> of the positioning class,
  which sqs.py calls and does not define. The spec: if \<open>cursor.x + cursor.width <
  cursor.maxWidth\<close>, set \<open>cursor.x += cursor.width\<close>; otherwise reset \<open>cursor.x = 0\<close> and
  \<open>cursor.y += cursor.height\<close>.
\<close>

definition iterate_positioning :: "positioning \<Rightarrow> positioning" where
  "iterate_positioning p =
     (if x p + width p < max_width p then p\<lparr>x := x p + width p\<rparr>
      else p\<lparr>x := 0, y := y p + height p\<rparr>)"

subsection \<open>Widgets\<close>

text \<open>
  An entry of \<open>metrics\<close> is a list of strings that may end in a dictionary of options.
  The widget and its \<open>properties\<close> are dictionaries with fixed keys; the fields carry
  the key behind a prefix.
\<close>

datatype metric_item = S string | D "(string \<times> string) list"

record widget_properties =
  p_metrics :: "metric_item list list"
  p_view :: string
  p_stacked :: bool
  p_region :: string
  p_period :: int
  p_title :: string
  p_stat :: string

record widget =
  w_type :: string
  w_x :: int
  w_y :: int
  w_height :: int
  w_width :: int
  w_properties :: widget_properties

text \<open>
  \<open>sqs_queues\<close> of the lookups module is a dictionary from the tier agnostic queue name
  to a dictionary with the key \<open>title\<close>; the table is a parameter of the model.
\<close>

type_synonym lookups = "string \<rightharpoonup> (string \<rightharpoonup> string)"

subsection \<open>create_sqs_widgets\<close>

text \<open>The queue name: the part of the url after the last \<open>/\<close>.\<close>

definition queue_name_of :: "string \<Rightarrow> py_error + string" where
  "queue_name_of queue_url =
     (let url_parts = str_split CHR ''/'' queue_url in item_minus_1 url_parts)"

text \<open>\<open>queue_name.replace(f"-{deploy_stage}", '')\<close>\<close>

definition tier_agnostic :: "string \<Rightarrow> string \<Rightarrow> string" where
  "tier_agnostic queue_name deploy_stage = str_replace (CHR ''-'' # deploy_stage) [] queue_name"

text \<open>\<open>sqs_queues[tier_agnostic_queue_name]['title']\<close>\<close>

definition queue_title_of :: "lookups \<Rightarrow> string \<Rightarrow> py_error + string" where
  "queue_title_of sqs_queues tier_agnostic_queue_name =
     (case sqs_queues tier_agnostic_queue_name of
        None \<Rightarrow> Inl (KeyError tier_agnostic_queue_name)
      | Some entry \<Rightarrow>
          (case entry ''title'' of
             None \<Rightarrow> Inl (KeyError ''title'')
           | Some queue_title \<Rightarrow> Inr queue_title))"

definition queue_metrics :: "string \<Rightarrow> metric_item list list" where
  "queue_metrics queue_name =
     [[S ''AWS/SQS'', S ''ApproximateNumberOfMessagesVisible'', S ''QueueName'', S queue_name],
      [S ''.'', S ''ApproximateAgeOfOldestMessage'', S ''.'', S ''.'', D [(''yAxis'', ''right'')]],
      [S ''.'', S ''NumberOfMessagesReceived'', S ''.'', S ''.'', D [(''stat'', ''Sum'')]],
      [S ''.'', S ''NumberOfMessagesSent'', S ''.'', S ''.'', D [(''stat'', ''Sum'')]],
      [S ''.'', S ''NumberOfMessagesDeleted'', S ''.'', S ''.''],
      [S ''.'', S ''ApproximateNumberOfMessagesDelayed'', S ''.'', S ''.'']]"

text \<open>
  The body of the \<open>if\<close> up to \<open>sqs_widgets.append\<close>: the widget of one queue and the
  positioning object with its width set, or the exception raised before either.
\<close>

definition queue_widget_of ::
  "lookups \<Rightarrow> string \<Rightarrow> string \<Rightarrow> string \<Rightarrow> positioning \<Rightarrow> py_error + (widget \<times> positioning)" where
  "queue_widget_of sqs_queues region deploy_stage queue_url pos =
     (case queue_name_of queue_url of
        Inl e \<Rightarrow> Inl e
      | Inr queue_name \<Rightarrow>
          (let tier_agnostic_queue_name = tier_agnostic queue_name deploy_stage
           in case queue_title_of sqs_queues tier_agnostic_queue_name of
                Inl e \<Rightarrow> Inl e
              | Inr queue_title \<Rightarrow>
                  (let pos' = pos\<lparr>width := 12\<rparr>
                   in Inr (\<lparr> w_type = ''metric'',
                             w_x = x pos',
                             w_y = y pos',
                             w_height = height pos' + 3,
                             w_width = width pos',
                             w_properties =
                               \<lparr> p_metrics = queue_metrics queue_name,
                                 p_view = ''timeSeries'',
                                 p_stacked = False,
                                 p_region = region,
                                 p_period = 60,
                                 p_title = queue_title,
                                 p_stat = ''Average'' \<rparr> \<rparr>,
                           pos'))))"

text \<open>
  The \<open>for\<close> loop over the queue urls. An exception ends it; the widgets built so far
  are then lost, the positioning object keeps what was written to it.
\<close>

fun for_queue_url ::
  "boto3 \<Rightarrow> lookups \<Rightarrow> string \<Rightarrow> string \<Rightarrow> string list \<Rightarrow> widget list \<Rightarrow> positioning
     \<Rightarrow> api_call list \<Rightarrow> (py_error + widget list) \<times> positioning \<times> api_call list" where
  "for_queue_url boto3 sqs_queues region deploy_stage [] sqs_widgets pos calls =
     (Inr sqs_widgets, pos, calls)"
| "for_queue_url boto3 sqs_queues region deploy_stage (queue_url # rest) sqs_widgets pos calls =
     (case is_iow_queue_filter boto3 queue_url deploy_stage region calls of
        (Inl e, calls') \<Rightarrow> (Inl e, pos, calls')
      | (Inr is_iow_queue, calls') \<Rightarrow>
          if is_iow_queue then
            (case queue_widget_of sqs_queues region deploy_stage queue_url pos of
               Inl e \<Rightarrow> (Inl e, pos, calls')
             | Inr (queue_widget, pos') \<Rightarrow>
                 for_queue_url boto3 sqs_queues region deploy_stage rest
                   (sqs_widgets @ [queue_widget]) (iterate_positioning pos') calls')
          else for_queue_url boto3 sqs_queues region deploy_stage rest sqs_widgets pos calls')"

definition create_sqs_widgets ::
  "boto3 \<Rightarrow> lookups \<Rightarrow> string \<Rightarrow> string \<Rightarrow> positioning \<Rightarrow> api_call list
     \<Rightarrow> ((py_error + widget list) \<times> positioning \<times> api_call list) option" where
  "create_sqs_widgets boto3 sqs_queues region deploy_stage pos calls =
     (case get_all_sqs_queue_urls boto3 region calls of
        None \<Rightarrow> None
      | Some (Inl e, calls') \<Rightarrow> Some (Inl e, pos, calls')
      | Some (Inr all_sqs_queue_urls_response, calls') \<Rightarrow>
          (case QueueUrls all_sqs_queue_urls_response of
             None \<Rightarrow> Some (Inl (KeyError ''QueueUrls''), pos, calls')
           | Some queue_urls \<Rightarrow>
               Some (for_queue_url boto3 sqs_queues region deploy_stage queue_urls [] pos calls')))"

subsection \<open>A listing served over pages\<close>

text \<open>
  \<open>serves sqs_client next_token pages\<close>: asked with \<open>next_token\<close>, the client answers with
  the first of \<open>pages\<close> as \<open>QueueUrls\<close>; it sends a continuation token, a string that is
  not empty, exactly when more pages follow, and the request with that token is
  answered by the rest of \<open>pages\<close> in the same way. The last page carries no token.
\<close>

fun serves :: "sqs_client \<Rightarrow> string option \<Rightarrow> string list list \<Rightarrow> bool" where
  "serves sqs_client next_token [] = False"
| "serves sqs_client next_token (page # pages) =
     (case list_queues sqs_client 10 next_token of
        Inl e \<Rightarrow> False
      | Inr response_iterator \<Rightarrow>
          QueueUrls response_iterator = Some page \<and>
          (case NextToken response_iterator of
             None \<Rightarrow> pages = []
           | Some t \<Rightarrow> t \<noteq> [] \<and> pages \<noteq> [] \<and> serves sqs_client (Some t) pages))"

subsection \<open>Inputs of the worked examples\<close>

text \<open>
  A client that lists five queue urls over three pages of at most two, and the tags of
  each: \<open>c-TEST\<close> and \<open>e-TEST\<close> are IOW queues, \<open>d-TEST\<close> belongs to another organization,
  the others have no tags. The last url has no \<open>/\<close>.
\<close>

definition example_boto3 :: boto3 where
  "example_boto3 region =
     \<lparr> list_queues = (\<lambda>n t.
         if t = None then
           Inr \<lparr> QueueUrls = Some [''https://host/1/a-DEV'', ''https://host/1/b-TEST''],
                 NextToken = Some ''2'' \<rparr>
         else if t = Some ''2'' then
           Inr \<lparr> QueueUrls = Some [''https://host/1/c-TEST'', ''https://host/1/d-TEST''],
                 NextToken = Some ''3'' \<rparr>
         else
           Inr \<lparr> QueueUrls = Some [''e-TEST''], NextToken = None \<rparr>),
       list_queue_tags = (\<lambda>u.
         if u = ''https://host/1/c-TEST'' \<or> u = ''e-TEST'' then
           Inr \<lparr> Tags = Some [''wma:organization'' \<mapsto> ''IOW''] \<rparr>
         else if u = ''https://host/1/d-TEST'' then
           Inr \<lparr> Tags = Some [''wma:organization'' \<mapsto> ''NWIS''] \<rparr>
         else Inr \<lparr> Tags = None \<rparr>) \<rparr>"

definition example_sqs_queues :: lookups where
  "example_sqs_queues =
     [''c'' \<mapsto> [''title'' \<mapsto> ''Error Queue''], ''e'' \<mapsto> [''title'' \<mapsto> ''Trigger Queue'']]"

definition example_positioning :: positioning where
  "example_positioning = \<lparr> x = 0, y = 0, width = 3, height = 3, max_width = 12 \<rparr>"

text \<open>A client of a region without queues: the response has neither key.\<close>

definition no_queues_boto3 :: boto3 where
  "no_queues_boto3 region =
     \<lparr> list_queues = (\<lambda>n t. Inr \<lparr> QueueUrls = None, NextToken = None \<rparr>),
       list_queue_tags = (\<lambda>u. Inr \<lparr> Tags = None \<rparr>) \<rparr>"

section \<open>Properties\<close>

subsection \<open>Strings\<close>

lemma str_in_sublist: "str_in a b = sublist a b"
  by (induction b) (simp_all add: sublist_Cons_right)

lemma str_in_iff: "str_in a b \<longleftrightarrow> (\<exists>p s. b = p @ a @ s)"
  by (simp add: str_in_sublist sublist_def)

lemma str_split_not_Nil: "str_split sep s \<noteq> []"
  by (induction s) (auto split: list.splits)

lemma last_str_split_no_sep: "sep \<notin> set (last (str_split sep s))"
  by (induction s) (auto split: list.splits)

lemma str_split_absent: "sep \<notin> set s \<Longrightarrow> str_split sep s = [s]"
  by (induction s) (auto split: list.splits)

lemma str_split_append:
  "str_split sep (a @ sep # b) = str_split sep a @ str_split sep b"
proof (induction a)
  case Nil
  then show ?case by simp
next
  case (Cons c cs)
  obtain p ps where "str_split sep cs = p # ps"
    using str_split_not_Nil[of sep cs] by (cases "str_split sep cs") auto
  then show ?case using Cons by simp
qed

lemma last_str_split_present:
  assumes "sep \<in> set s"
  shows "\<exists>pre. s = pre @ sep # last (str_split sep s)"
proof -
  obtain a b where s: "s = a @ sep # b" and b: "sep \<notin> set b"
    using assms by (meson split_list_last)
  have "last (str_split sep s) = b"
    using s b by (simp add: str_split_append str_split_absent)
  then show ?thesis using s by blast
qed

lemma queue_name_of_Inr: "queue_name_of queue_url = Inr (last (str_split CHR ''/'' queue_url))"
  using str_split_not_Nil[of "CHR ''/''" queue_url]
  by (simp add: queue_name_of_def item_minus_1_def Let_def split: list.splits)

lemma str_replace_no_occurrence:
  "old \<noteq> [] \<Longrightarrow> \<not> str_in old s \<Longrightarrow> str_replace old new s = s"
  by (induction s) auto

lemma prefix_within:
  assumes "prefix a (b @ c)" and "length a \<le> length b"
  shows "prefix a b"
  using assms by (auto simp: prefix_append)

lemma str_replace_first_occurrence:
  assumes "old \<noteq> []" and "\<not> str_in old (base @ butlast old)"
  shows "str_replace old new (base @ old @ rest) = base @ new @ str_replace old new rest"
  using assms(2)
proof (induction base)
  case Nil
  with assms(1) show ?case by (cases old) auto
next
  case (Cons c cs)
  from Cons.prems have np: "\<not> prefix old ((c # cs) @ butlast old)"
    and ns: "\<not> str_in old (cs @ butlast old)"
    by simp_all
  have "(c # cs) @ old @ rest = ((c # cs) @ butlast old) @ last old # rest"
    using assms(1) by simp
  moreover have "length old \<le> length ((c # cs) @ butlast old)" by simp
  ultimately have "\<not> prefix old ((c # cs) @ old @ rest)"
    using np prefix_within by metis
  then show ?case using Cons.IH[OF ns] assms(1) by simp
qed

subsection \<open>Pagination\<close>

lemma fetch_page_first:
  "list_queues sqs_client 10 None = Inr r \<Longrightarrow>
   fetch_page sqs_client \<lparr>QueueUrls = None, NextToken = None\<rparr> None = Inr (r, r)"
  by (cases r) (simp add: fetch_page_def truthy_def update_def split: option.splits)

lemma fetch_page_next:
  "t \<noteq> [] \<Longrightarrow> list_queues sqs_client 10 (Some t) = Inr r \<Longrightarrow>
   QueueUrls response = Some urls \<Longrightarrow> QueueUrls r = Some page \<Longrightarrow>
   fetch_page sqs_client response (Some t) = Inr (response\<lparr>QueueUrls := Some (urls @ page)\<rparr>, r)"
  by (simp add: fetch_page_def truthy_def)

lemma while_True_serves:
  "serves sqs_client (Some t) pages \<Longrightarrow> t \<noteq> [] \<Longrightarrow> QueueUrls response = Some urls \<Longrightarrow>
   \<exists>sent. while_True sqs_client region response (Some t) calls =
            Some (Inr (response\<lparr>QueueUrls := Some (urls @ concat pages)\<rparr>), calls @ sent)
          \<and> length sent = length pages"
proof (induction pages arbitrary: t response urls calls)
  case Nil
  then show ?case by simp
next
  case (Cons page pages)
  from Cons.prems(1) obtain r where
    r: "list_queues sqs_client 10 (Some t) = Inr r" and
    page: "QueueUrls r = Some page" and
    rest: "case NextToken r of None \<Rightarrow> pages = []
           | Some t' \<Rightarrow> t' \<noteq> [] \<and> pages \<noteq> [] \<and> serves sqs_client (Some t') pages"
    by (auto split: sum.splits)
  let ?response = "response\<lparr>QueueUrls := Some (urls @ page)\<rparr>"
  have fetch: "fetch_page sqs_client response (Some t) = Inr (?response, r)"
    using Cons.prems(2) r Cons.prems(3) page by (rule fetch_page_next)
  show ?case
  proof (cases "NextToken r")
    case None
    with rest have "pages = []" by simp
    then have "while_True sqs_client region response (Some t) calls =
                 Some (Inr (response\<lparr>QueueUrls := Some (urls @ concat (page # pages))\<rparr>),
                       calls @ [page_call region (Some t)])"
      using fetch None by (subst while_True.simps) simp
    then show ?thesis using \<open>pages = []\<close> by (intro exI[of _ "[page_call region (Some t)]"]) simp
  next
    case (Some t')
    with rest have t': "t' \<noteq> []" and sv: "serves sqs_client (Some t') pages" by simp_all
    have "QueueUrls ?response = Some (urls @ page)" by simp
    from Cons.IH[OF sv t' this, of "calls @ [page_call region (Some t)]"]
    obtain sent where
      w: "while_True sqs_client region ?response (Some t') (calls @ [page_call region (Some t)]) =
            Some (Inr (?response\<lparr>QueueUrls := Some ((urls @ page) @ concat pages)\<rparr>),
                  (calls @ [page_call region (Some t)]) @ sent)" and
      len: "length sent = length pages"
      by blast
    have "while_True sqs_client region response (Some t) calls =
            while_True sqs_client region ?response (Some t') (calls @ [page_call region (Some t)])"
      using fetch Some by (subst while_True.simps) simp
    with w have "while_True sqs_client region response (Some t) calls =
            Some (Inr (response\<lparr>QueueUrls := Some (urls @ concat (page # pages))\<rparr>),
                  calls @ (page_call region (Some t) # sent))"
      by simp
    then show ?thesis using len by (intro exI[of _ "page_call region (Some t) # sent"]) simp
  qed
qed

subsection \<open>The loop over the queue urls\<close>

lemma for_queue_url_append:
  "for_queue_url boto3 sqs_queues region deploy_stage (before @ rest) sqs_widgets pos calls =
     (case for_queue_url boto3 sqs_queues region deploy_stage before sqs_widgets pos calls of
        (Inl e, pos', calls') \<Rightarrow> (Inl e, pos', calls')
      | (Inr sqs_widgets', pos', calls') \<Rightarrow>
          for_queue_url boto3 sqs_queues region deploy_stage rest sqs_widgets' pos' calls')"
  by (induction before arbitrary: sqs_widgets pos calls)
     (auto split: prod.splits sum.splits)

lemma for_queue_url_keeps:
  "for_queue_url boto3 sqs_queues region deploy_stage urls sqs_widgets pos calls = (Inr out, pos', calls')
     \<Longrightarrow> prefix sqs_widgets out"
proof (induction urls arbitrary: sqs_widgets pos calls)
  case Nil
  then show ?case by simp
next
  case (Cons u urls)
  then show ?case
    by (auto split: prod.splits sum.splits if_splits dest: append_prefixD)
qed

lemma create_sqs_widgets_at:
  assumes "get_all_sqs_queue_urls boto3 region calls = Some (Inr response, calls1)"
      and "QueueUrls response = Some (before @ queue_url # rest)"
      and "for_queue_url boto3 sqs_queues region deploy_stage before [] pos calls1
             = (Inr sqs_widgets, pos2, calls2)"
  shows "create_sqs_widgets boto3 sqs_queues region deploy_stage pos calls =
           Some (for_queue_url boto3 sqs_queues region deploy_stage (queue_url # rest)
                   sqs_widgets pos2 calls2)"
  using assms by (simp add: create_sqs_widgets_def for_queue_url_append)

lemma queue_widget_of_Inr:
  assumes "queue_name_of queue_url = Inr queue_name"
      and "queue_title_of sqs_queues (tier_agnostic queue_name deploy_stage) = Inr queue_title"
  shows "queue_widget_of sqs_queues region deploy_stage queue_url pos =
           Inr (\<lparr> w_type = ''metric'', w_x = x pos, w_y = y pos, w_height = height pos + 3,
                   w_width = 12,
                   w_properties =
                     \<lparr> p_metrics = queue_metrics queue_name, p_view = ''timeSeries'',
                       p_stacked = False, p_region = region, p_period = 60,
                       p_title = queue_title, p_stat = ''Average'' \<rparr> \<rparr>,
                pos\<lparr>width := 12\<rparr>)"
  using assms by (simp add: queue_widget_of_def Let_def)

subsection \<open>Completeness of the listing\<close>

text \<open>
  C1. Whenever the listing serves its identifiers over pages linked by continuation
  tokens, however the identifiers are spread over the pages (in particular N identifiers
  over the ceiling of N / pageSize pages), \<open>get_all_sqs_queue_urls\<close> returns, and the
  \<open>QueueUrls\<close> of its result are the pages one after the other, each page in its own
  order: every identifier once at its place, none dropped or repeated at a page
  boundary. It sends one request for each page. A continuation token is a string that
  is not empty, as the loop tests the token for truth.
\<close>

theorem get_all_sqs_queue_urls_pages:
  assumes "serves (boto3 region) None pages"
  shows "\<exists>response sent.
           get_all_sqs_queue_urls boto3 region calls = Some (Inr response, calls @ sent)
         \<and> QueueUrls response = Some (concat pages)
         \<and> length sent = length pages"
proof -
  obtain page rest where pages: "pages = page # rest"
    using assms by (cases pages) auto
  from assms obtain r where
    r: "list_queues (boto3 region) 10 None = Inr r" and
    page: "QueueUrls r = Some page" and
    more: "case NextToken r of None \<Rightarrow> rest = []
           | Some t \<Rightarrow> t \<noteq> [] \<and> rest \<noteq> [] \<and> serves (boto3 region) (Some t) rest"
    unfolding pages by (auto split: sum.splits)
  have fetch: "fetch_page (boto3 region) \<lparr>QueueUrls = None, NextToken = None\<rparr> None = Inr (r, r)"
    using r by (rule fetch_page_first)
  show ?thesis
  proof (cases "NextToken r")
    case None
    with more have "rest = []" by simp
    have "get_all_sqs_queue_urls boto3 region calls = Some (Inr r, calls @ [page_call region None])"
      unfolding get_all_sqs_queue_urls_def Let_def
      using fetch None by (subst while_True.simps) simp
    then show ?thesis using page pages \<open>rest = []\<close>
      by (intro exI[of _ r] exI[of _ "[page_call region None]"]) simp
  next
    case (Some t)
    with more have t: "t \<noteq> []" and sv: "serves (boto3 region) (Some t) rest" by simp_all
    from while_True_serves[OF sv t page, of region "calls @ [page_call region None]"]
    obtain sent where
      w: "while_True (boto3 region) region r (Some t) (calls @ [page_call region None]) =
            Some (Inr (r\<lparr>QueueUrls := Some (page @ concat rest)\<rparr>),
                  (calls @ [page_call region None]) @ sent)" and
      len: "length sent = length rest"
      by blast
    have "get_all_sqs_queue_urls boto3 region calls =
            while_True (boto3 region) region r (Some t) (calls @ [page_call region None])"
      unfolding get_all_sqs_queue_urls_def Let_def
      using fetch Some by (subst while_True.simps) simp
    with w have "get_all_sqs_queue_urls boto3 region calls =
            Some (Inr (r\<lparr>QueueUrls := Some (page @ concat rest)\<rparr>),
                  calls @ (page_call region None # sent))"
      by simp
    then show ?thesis using pages len
      by (intro exI[of _ "r\<lparr>QueueUrls := Some (page @ concat rest)\<rparr>"]
                exI[of _ "page_call region None # sent"]) simp
  qed
qed

theorem get_all_sqs_queue_urls_pages_witness:
  "serves (example_boto3 ''us-west-2'') None
     [[''https://host/1/a-DEV'', ''https://host/1/b-TEST''],
      [''https://host/1/c-TEST'', ''https://host/1/d-TEST''],
      [''e-TEST'']]
   \<and> (\<exists>response sent.
         get_all_sqs_queue_urls example_boto3 ''us-west-2'' [] = Some (Inr response, [] @ sent)
       \<and> QueueUrls response =
           Some [''https://host/1/a-DEV'', ''https://host/1/b-TEST'',
                 ''https://host/1/c-TEST'', ''https://host/1/d-TEST'', ''e-TEST'']
       \<and> length sent = 3)"
proof -
  have h: "serves (example_boto3 ''us-west-2'') None
     [[''https://host/1/a-DEV'', ''https://host/1/b-TEST''],
      [''https://host/1/c-TEST'', ''https://host/1/d-TEST''],
      [''e-TEST'']]"
    by (simp add: example_boto3_def)
  have c: "\<exists>response sent.
         get_all_sqs_queue_urls example_boto3 ''us-west-2'' [] = Some (Inr response, [] @ sent)
       \<and> QueueUrls response =
           Some [''https://host/1/a-DEV'', ''https://host/1/b-TEST'',
                 ''https://host/1/c-TEST'', ''https://host/1/d-TEST'', ''e-TEST'']
       \<and> length sent = 3"
    using get_all_sqs_queue_urls_pages [of example_boto3 "''us-west-2''" _ "[]", OF h]
    by (simp add: numeral_3_eq_3)
  from h c show ?thesis by (rule conjI)
qed

subsection \<open>The filter\<close>

text \<open>
  C2. For a deploy stage of ASCII characters: when the tag lookup answers with a
  response, \<open>is_iow_queue_filter\<close> returns a boolean and raises nothing; the boolean is
  true exactly when the upper-cased deploy stage occurs in the queue url as a substring
  and the response has a \<open>Tags\<close> collection in which the key \<open>wma:organization\<close> is
  mapped to \<open>IOW\<close>. So a response without \<open>Tags\<close>, tags without the key, and any other
  value all give \<open>False\<close>.
\<close>

theorem is_iow_queue_filter_iff:
  assumes "isascii deploy_stage"
      and "list_queue_tags (boto3 region) queue_url = Inr queue_tags"
  shows "fst (is_iow_queue_filter boto3 queue_url deploy_stage region calls) =
           Inr ((\<exists>p s. queue_url = p @ upper deploy_stage @ s)
                \<and> (\<exists>tags. Tags queue_tags = Some tags \<and> tags ''wma:organization'' = Some ''IOW''))"
  using assms
  by (auto simp: is_iow_queue_filter_def Let_def str_in_iff split: option.splits)

theorem is_iow_queue_filter_iff_witness:
  "isascii ''test''
   \<and> list_queue_tags (example_boto3 ''us-west-2'') ''https://host/1/c-TEST''
     = Inr \<lparr> Tags = Some [''wma:organization'' \<mapsto> ''IOW''] \<rparr>
   \<and> fst (is_iow_queue_filter example_boto3 ''https://host/1/c-TEST'' ''test'' ''us-west-2'' [])
     = Inr True"
proof -
  have h: "list_queue_tags (example_boto3 ''us-west-2'') ''https://host/1/c-TEST''
     = Inr \<lparr> Tags = Some [''wma:organization'' \<mapsto> ''IOW''] \<rparr>"
    by (simp add: example_boto3_def)
  have a: "isascii ''test''" by (simp add: isascii_def)
  have u: "upper ''test'' = ''TEST''" by code_simp
  have "''https://host/1/c-TEST'' = ''https://host/1/c-'' @ upper ''test'' @ []"
    by (simp add: u)
  then have s: "\<exists>p s. ''https://host/1/c-TEST'' = p @ upper ''test'' @ s" by blast
  have "fst (is_iow_queue_filter example_boto3 ''https://host/1/c-TEST'' ''test'' ''us-west-2'' [])
          = Inr True"
    using is_iow_queue_filter_iff [of "''test''" example_boto3 "''us-west-2''" _ _ "[]", OF a h] s
    by simp
  with a h show ?thesis by (intro conjI)
qed

text \<open>
  C8. For a deploy stage of ASCII characters: when the upper-cased deploy stage does
  not occur in the queue url, \<open>is_iow_queue_filter\<close> returns \<open>False\<close> and the log of
  calls is the one it was given: no tag lookup is sent.
\<close>

theorem is_iow_queue_filter_no_call:
  assumes "isascii deploy_stage"
      and "\<not> (\<exists>p s. queue_url = p @ upper deploy_stage @ s)"
  shows "is_iow_queue_filter boto3 queue_url deploy_stage region calls = (Inr False, calls)"
  using assms by (simp add: is_iow_queue_filter_def Let_def str_in_iff)

theorem is_iow_queue_filter_no_call_witness:
  "isascii ''TEST''
   \<and> \<not> (\<exists>p s. ''https://host/1/a-DEV'' = p @ upper ''TEST'' @ s)
   \<and> is_iow_queue_filter example_boto3 ''https://host/1/a-DEV'' ''TEST'' ''us-west-2'' []
     = (Inr False, [])"
proof -
  have h: "\<not> (\<exists>p s. ''https://host/1/a-DEV'' = p @ upper ''TEST'' @ s)"
    unfolding str_in_iff[symmetric] by (simp add: upper_def char_upper_def)
  have a: "isascii ''TEST''" by (simp add: isascii_def)
  from a h is_iow_queue_filter_no_call [OF a h] show ?thesis by (intro conjI)
qed

subsection \<open>The positioning object\<close>

text \<open>
  C6. One call of \<open>iterate_positioning\<close> moves \<open>x\<close> by \<open>width\<close> when \<open>x + width\<close> is below
  \<open>max_width\<close>; otherwise it sets \<open>x\<close> to 0 and moves \<open>y\<close> by \<open>height\<close>. The other
  attributes stay.
\<close>

theorem iterate_positioning_spec:
  "(x p + width p < max_width p \<longrightarrow> iterate_positioning p = p\<lparr>x := x p + width p\<rparr>)
   \<and> (\<not> x p + width p < max_width p
        \<longrightarrow> iterate_positioning p = p\<lparr>x := 0, y := y p + height p\<rparr>)"
  by (simp add: iterate_positioning_def)

theorem iterate_positioning_spec_witness:
  "iterate_positioning \<lparr>x = 0, y = 0, width = 12, height = 3, max_width = 12\<rparr>
     = \<lparr>x = 0, y = 3, width = 12, height = 3, max_width = 12\<rparr>
   \<and> iterate_positioning \<lparr>x = 0, y = 0, width = 3, height = 3, max_width = 12\<rparr>
     = \<lparr>x = 3, y = 0, width = 3, height = 3, max_width = 12\<rparr>"
  using iterate_positioning_spec [of "\<lparr>x = 0, y = 0, width = 12, height = 3, max_width = 12\<rparr>"]
        iterate_positioning_spec [of "\<lparr>x = 0, y = 0, width = 3, height = 3, max_width = 12\<rparr>"]
  by simp

subsection \<open>A region without queues\<close>

text \<open>
  C10. When the first page has neither \<open>QueueUrls\<close> nor \<open>NextToken\<close>,
  \<open>get_all_sqs_queue_urls\<close> returns a response without \<open>QueueUrls\<close> after one request, and
  \<open>create_sqs_widgets\<close> raises \<open>KeyError\<close> for that key where it starts its loop; it
  does not return an empty list of widgets, and the positioning object is untouched.
\<close>

theorem create_sqs_widgets_no_QueueUrls:
  assumes "list_queues (boto3 region) 10 None = Inr \<lparr> QueueUrls = None, NextToken = None \<rparr>"
  shows "get_all_sqs_queue_urls boto3 region calls =
           Some (Inr \<lparr> QueueUrls = None, NextToken = None \<rparr>, calls @ [ListQueues region 10 None])
         \<and> create_sqs_widgets boto3 sqs_queues region deploy_stage pos calls =
           Some (Inl (KeyError ''QueueUrls''), pos, calls @ [ListQueues region 10 None])"
proof -
  have "fetch_page (boto3 region) \<lparr>QueueUrls = None, NextToken = None\<rparr> None =
          Inr (\<lparr>QueueUrls = None, NextToken = None\<rparr>, \<lparr>QueueUrls = None, NextToken = None\<rparr>)"
    using assms by (rule fetch_page_first)
  then have "get_all_sqs_queue_urls boto3 region calls =
           Some (Inr \<lparr> QueueUrls = None, NextToken = None \<rparr>, calls @ [ListQueues region 10 None])"
    unfolding get_all_sqs_queue_urls_def Let_def
    by (subst while_True.simps) (simp add: page_call_def truthy_def)
  then show ?thesis by (simp add: create_sqs_widgets_def)
qed

theorem create_sqs_widgets_no_QueueUrls_witness:
  "list_queues (no_queues_boto3 ''us-west-2'') 10 None
     = Inr \<lparr> QueueUrls = None, NextToken = None \<rparr>
   \<and> get_all_sqs_queue_urls no_queues_boto3 ''us-west-2'' [] =
       Some (Inr \<lparr> QueueUrls = None, NextToken = None \<rparr>, [ListQueues ''us-west-2'' 10 None])
   \<and> create_sqs_widgets no_queues_boto3 example_sqs_queues ''us-west-2'' ''TEST''
       example_positioning [] =
       Some (Inl (KeyError ''QueueUrls''), example_positioning, [ListQueues ''us-west-2'' 10 None])"
proof -
  have h: "list_queues (no_queues_boto3 ''us-west-2'') 10 None
             = Inr \<lparr> QueueUrls = None, NextToken = None \<rparr>"
    by (simp add: no_queues_boto3_def)
  show ?thesis
    using h create_sqs_widgets_no_QueueUrls
            [of no_queues_boto3 "''us-west-2''" "[]" example_sqs_queues "''TEST''"
                example_positioning, OF h]
    by simp
qed

subsection \<open>The worked example, step by step\<close>

lemma example_listing:
  "get_all_sqs_queue_urls example_boto3 ''us-west-2'' [] =
     Some (Inr \<lparr> QueueUrls = Some [''https://host/1/a-DEV'', ''https://host/1/b-TEST'',
                                    ''https://host/1/c-TEST'', ''https://host/1/d-TEST'', ''e-TEST''],
                 NextToken = Some ''2'' \<rparr>,
           [ListQueues ''us-west-2'' 10 None, ListQueues ''us-west-2'' 10 (Some ''2''),
            ListQueues ''us-west-2'' 10 (Some ''3'')])"
  by (simp add: get_all_sqs_queue_urls_def while_True.simps fetch_page_def example_boto3_def
        truthy_def update_def page_call_def)

lemma example_urls:
  "QueueUrls \<lparr> QueueUrls = Some [''https://host/1/a-DEV'', ''https://host/1/b-TEST'',
                                ''https://host/1/c-TEST'', ''https://host/1/d-TEST'', ''e-TEST''],
               NextToken = Some ''2'' \<rparr> =
     Some ([''https://host/1/a-DEV'', ''https://host/1/b-TEST'']
           @ ''https://host/1/c-TEST'' # [''https://host/1/d-TEST'', ''e-TEST''])"
  by simp

lemma example_before:
  "for_queue_url example_boto3 sqs_queues ''us-west-2'' ''TEST''
     [''https://host/1/a-DEV'', ''https://host/1/b-TEST''] [] example_positioning
     [ListQueues ''us-west-2'' 10 None, ListQueues ''us-west-2'' 10 (Some ''2''),
      ListQueues ''us-west-2'' 10 (Some ''3'')] =
     (Inr [], example_positioning,
      [ListQueues ''us-west-2'' 10 None, ListQueues ''us-west-2'' 10 (Some ''2''),
       ListQueues ''us-west-2'' 10 (Some ''3''),
       ListQueueTags ''us-west-2'' ''https://host/1/b-TEST''])"
  by (simp add: is_iow_queue_filter_def example_boto3_def upper_def char_upper_def Let_def)

lemma example_eligible:
  "is_iow_queue_filter example_boto3 ''https://host/1/c-TEST'' ''TEST'' ''us-west-2''
     [ListQueues ''us-west-2'' 10 None, ListQueues ''us-west-2'' 10 (Some ''2''),
      ListQueues ''us-west-2'' 10 (Some ''3''),
      ListQueueTags ''us-west-2'' ''https://host/1/b-TEST''] =
     (Inr True,
      [ListQueues ''us-west-2'' 10 None, ListQueues ''us-west-2'' 10 (Some ''2''),
       ListQueues ''us-west-2'' 10 (Some ''3''),
       ListQueueTags ''us-west-2'' ''https://host/1/b-TEST'',
       ListQueueTags ''us-west-2'' ''https://host/1/c-TEST''])"
  by (simp add: is_iow_queue_filter_def example_boto3_def upper_def char_upper_def Let_def)

lemma example_name: "queue_name_of ''https://host/1/c-TEST'' = Inr ''c-TEST''"
  by (simp add: queue_name_of_def item_minus_1_def)

subsection \<open>The widget of an eligible queue\<close>

text \<open>
  C3, as the source has it. When the loop of \<open>create_sqs_widgets\<close> reaches an eligible
  queue url whose title is in the lookup, it appends one widget \<open>w\<close> and goes on with the
  rest of the urls and the positioning object moved by \<open>iterate_positioning\<close>; whenever
  the function returns, \<open>w\<close> is in its list at that place. The widget has type
  \<open>metric\<close>, width 12 (the width of the positioning object is set to 12 before it is
  read), the height of the positioning object plus 3, its \<open>x\<close> and \<open>y\<close>, the view
  \<open>timeSeries\<close>, not stacked, period 60, statistic \<open>Average\<close>, the title looked up, and
  six metrics. The queue name stands in the dimension value of the first metric only;
  in the other five that place holds the mark \<open>.\<close>, which a dashboard reads as the
  value of the entry before.
\<close>

theorem create_sqs_widgets_emits:
  assumes listing: "get_all_sqs_queue_urls boto3 region calls = Some (Inr response, calls1)"
      and urls: "QueueUrls response = Some (before @ queue_url # rest)"
      and before: "for_queue_url boto3 sqs_queues region deploy_stage before [] pos calls1
                     = (Inr sqs_widgets, pos2, calls2)"
      and eligible: "is_iow_queue_filter boto3 queue_url deploy_stage region calls2
                       = (Inr True, calls3)"
      and name: "queue_name_of queue_url = Inr queue_name"
      and title: "queue_title_of sqs_queues (tier_agnostic queue_name deploy_stage)
                    = Inr queue_title"
  shows "\<exists>w. create_sqs_widgets boto3 sqs_queues region deploy_stage pos calls =
               Some (for_queue_url boto3 sqs_queues region deploy_stage rest (sqs_widgets @ [w])
                       (iterate_positioning (pos2\<lparr>width := 12\<rparr>)) calls3)
           \<and> (\<forall>out pos' calls'.
                 create_sqs_widgets boto3 sqs_queues region deploy_stage pos calls
                   = Some (Inr out, pos', calls')
                 \<longrightarrow> length sqs_widgets < length out \<and> out ! length sqs_widgets = w)
           \<and> w_type w = ''metric'' \<and> w_width w = 12 \<and> w_height w = height pos2 + 3
           \<and> w_x w = x pos2 \<and> w_y w = y pos2
           \<and> p_view (w_properties w) = ''timeSeries'' \<and> p_stacked (w_properties w) = False
           \<and> p_period (w_properties w) = 60 \<and> p_stat (w_properties w) = ''Average''
           \<and> p_title (w_properties w) = queue_title \<and> p_region (w_properties w) = region
           \<and> p_metrics (w_properties w) =
               [[S ''AWS/SQS'', S ''ApproximateNumberOfMessagesVisible'', S ''QueueName'', S queue_name],
                [S ''.'', S ''ApproximateAgeOfOldestMessage'', S ''.'', S ''.'', D [(''yAxis'', ''right'')]],
                [S ''.'', S ''NumberOfMessagesReceived'', S ''.'', S ''.'', D [(''stat'', ''Sum'')]],
                [S ''.'', S ''NumberOfMessagesSent'', S ''.'', S ''.'', D [(''stat'', ''Sum'')]],
                [S ''.'', S ''NumberOfMessagesDeleted'', S ''.'', S ''.''],
                [S ''.'', S ''ApproximateNumberOfMessagesDelayed'', S ''.'', S ''.'']]"
proof -
  let ?w = "\<lparr> w_type = ''metric'', w_x = x pos2, w_y = y pos2, w_height = height pos2 + 3,
               w_width = 12,
               w_properties =
                 \<lparr> p_metrics = queue_metrics queue_name, p_view = ''timeSeries'',
                   p_stacked = False, p_region = region, p_period = 60,
                   p_title = queue_title, p_stat = ''Average'' \<rparr> \<rparr>"
  let ?rest = "for_queue_url boto3 sqs_queues region deploy_stage rest (sqs_widgets @ [?w])
                 (iterate_positioning (pos2\<lparr>width := 12\<rparr>)) calls3"
  have step: "for_queue_url boto3 sqs_queues region deploy_stage (queue_url # rest)
                sqs_widgets pos2 calls2 = ?rest"
    using eligible queue_widget_of_Inr[OF name title, of region pos2] by simp
  have run: "create_sqs_widgets boto3 sqs_queues region deploy_stage pos calls = Some ?rest"
    using create_sqs_widgets_at[OF listing urls before] step by simp
  have at: "length sqs_widgets < length out \<and> out ! length sqs_widgets = ?w"
    if "create_sqs_widgets boto3 sqs_queues region deploy_stage pos calls
          = Some (Inr out, pos', calls')"
    for out pos' calls'
  proof -
    from that run have "?rest = (Inr out, pos', calls')" by simp
    then have "prefix (sqs_widgets @ [?w]) out" by (rule for_queue_url_keeps)
    then obtain more_widgets where "out = (sqs_widgets @ [?w]) @ more_widgets"
      by (auto simp: prefix_def)
    then show ?thesis by simp
  qed
  show ?thesis
    by (rule exI[of _ ?w]) (use run at in \<open>simp add: queue_metrics_def\<close>)
qed

theorem create_sqs_widgets_emits_witness:
  "\<exists>w. create_sqs_widgets example_boto3 example_sqs_queues ''us-west-2'' ''TEST''
          example_positioning [] =
          Some (for_queue_url example_boto3 example_sqs_queues ''us-west-2'' ''TEST''
                  [''https://host/1/d-TEST'', ''e-TEST''] [w]
                  \<lparr> x = 0, y = 3, width = 12, height = 3, max_width = 12 \<rparr>
                  [ListQueues ''us-west-2'' 10 None, ListQueues ''us-west-2'' 10 (Some ''2''),
                   ListQueues ''us-west-2'' 10 (Some ''3''),
                   ListQueueTags ''us-west-2'' ''https://host/1/b-TEST'',
                   ListQueueTags ''us-west-2'' ''https://host/1/c-TEST''])
      \<and> w_width w = 12 \<and> w_height w = 6 \<and> w_x w = 0 \<and> w_y w = 0
      \<and> p_title (w_properties w) = ''Error Queue''
      \<and> length (p_metrics (w_properties w)) = 6
      \<and> p_metrics (w_properties w) ! 0 ! 3 = S ''c-TEST''"
proof -
  have title: "queue_title_of example_sqs_queues (tier_agnostic ''c-TEST'' ''TEST'')
                 = Inr ''Error Queue''"
    by (simp add: queue_title_of_def tier_agnostic_def example_sqs_queues_def)
  from create_sqs_widgets_emits
         [OF example_listing example_urls example_before example_eligible example_name title]
  obtain w where
    "create_sqs_widgets example_boto3 example_sqs_queues ''us-west-2'' ''TEST''
       example_positioning [] =
       Some (for_queue_url example_boto3 example_sqs_queues ''us-west-2'' ''TEST''
               [''https://host/1/d-TEST'', ''e-TEST''] ([] @ [w])
               (iterate_positioning (example_positioning\<lparr>width := 12\<rparr>))
               [ListQueues ''us-west-2'' 10 None, ListQueues ''us-west-2'' 10 (Some ''2''),
                ListQueues ''us-west-2'' 10 (Some ''3''),
                ListQueueTags ''us-west-2'' ''https://host/1/b-TEST'',
                ListQueueTags ''us-west-2'' ''https://host/1/c-TEST''])"
    and "w_width w = 12" and "w_height w = height example_positioning + 3"
    and "w_x w = x example_positioning" and "w_y w = y example_positioning"
    and "p_title (w_properties w) = ''Error Queue''"
    and "p_metrics (w_properties w) =
           [[S ''AWS/SQS'', S ''ApproximateNumberOfMessagesVisible'', S ''QueueName'', S ''c-TEST''],
            [S ''.'', S ''ApproximateAgeOfOldestMessage'', S ''.'', S ''.'', D [(''yAxis'', ''right'')]],
            [S ''.'', S ''NumberOfMessagesReceived'', S ''.'', S ''.'', D [(''stat'', ''Sum'')]],
            [S ''.'', S ''NumberOfMessagesSent'', S ''.'', S ''.'', D [(''stat'', ''Sum'')]],
            [S ''.'', S ''NumberOfMessagesDeleted'', S ''.'', S ''.''],
            [S ''.'', S ''ApproximateNumberOfMessagesDelayed'', S ''.'', S ''.'']]"
    by blast
  then show ?thesis
    by (intro exI[of _ w]) (simp add: example_positioning_def iterate_positioning_def)
qed

theorem queue_metrics_counterexample:
  "queue_name_of ''https://host/1/c-TEST'' = Inr ''c-TEST''
   \<and> \<not> isl (queue_widget_of example_sqs_queues ''us-west-2'' ''TEST'' ''https://host/1/c-TEST''
              example_positioning)
   \<and> p_metrics (w_properties (fst (projr
        (queue_widget_of example_sqs_queues ''us-west-2'' ''TEST'' ''https://host/1/c-TEST''
           example_positioning)))) ! 1 ! 3 = S ''.''
   \<and> S ''.'' \<noteq> S ''c-TEST''"
  by (simp add: queue_name_of_def item_minus_1_def queue_widget_of_def tier_agnostic_def
        queue_title_of_def example_sqs_queues_def queue_metrics_def Let_def)

subsection \<open>The metrics of a widget\<close>

text \<open>
  C4. A run of \<open>create_sqs_widgets\<close> on the example: two of the five queues pass the
  filter, and each widget carries the six metrics in the order visible, age of oldest
  message (on the right axis), received, sent, deleted, delayed, with the queue name as
  the \<open>QueueName\<close> dimension of the first and repeated by \<open>.\<close> in the others. The entries
  of the received and the sent messages carry the option \<open>stat\<close> with \<open>Sum\<close>; the entry
  of the deleted messages carries no option, so the statistic \<open>Average\<close> of the widget
  applies to it.
\<close>

theorem create_sqs_widgets_example:
  "create_sqs_widgets example_boto3 example_sqs_queues ''us-west-2'' ''TEST'' example_positioning []
     = Some (Inr [\<lparr> w_type = ''metric'', w_x = 0, w_y = 0, w_height = 6, w_width = 12,
                     w_properties =
                       \<lparr> p_metrics =
                           [[S ''AWS/SQS'', S ''ApproximateNumberOfMessagesVisible'', S ''QueueName'', S ''c-TEST''],
                            [S ''.'', S ''ApproximateAgeOfOldestMessage'', S ''.'', S ''.'', D [(''yAxis'', ''right'')]],
                            [S ''.'', S ''NumberOfMessagesReceived'', S ''.'', S ''.'', D [(''stat'', ''Sum'')]],
                            [S ''.'', S ''NumberOfMessagesSent'', S ''.'', S ''.'', D [(''stat'', ''Sum'')]],
                            [S ''.'', S ''NumberOfMessagesDeleted'', S ''.'', S ''.''],
                            [S ''.'', S ''ApproximateNumberOfMessagesDelayed'', S ''.'', S ''.'']],
                         p_view = ''timeSeries'', p_stacked = False, p_region = ''us-west-2'',
                         p_period = 60, p_title = ''Error Queue'', p_stat = ''Average'' \<rparr> \<rparr>,
                  \<lparr> w_type = ''metric'', w_x = 0, w_y = 3, w_height = 6, w_width = 12,
                     w_properties =
                       \<lparr> p_metrics =
                           [[S ''AWS/SQS'', S ''ApproximateNumberOfMessagesVisible'', S ''QueueName'', S ''e-TEST''],
                            [S ''.'', S ''ApproximateAgeOfOldestMessage'', S ''.'', S ''.'', D [(''yAxis'', ''right'')]],
                            [S ''.'', S ''NumberOfMessagesReceived'', S ''.'', S ''.'', D [(''stat'', ''Sum'')]],
                            [S ''.'', S ''NumberOfMessagesSent'', S ''.'', S ''.'', D [(''stat'', ''Sum'')]],
                            [S ''.'', S ''NumberOfMessagesDeleted'', S ''.'', S ''.''],
                            [S ''.'', S ''ApproximateNumberOfMessagesDelayed'', S ''.'', S ''.'']],
                         p_view = ''timeSeries'', p_stacked = False, p_region = ''us-west-2'',
                         p_period = 60, p_title = ''Trigger Queue'', p_stat = ''Average'' \<rparr> \<rparr>],
             \<lparr> x = 0, y = 6, width = 12, height = 3, max_width = 12 \<rparr>,
             [ListQueues ''us-west-2'' 10 None, ListQueues ''us-west-2'' 10 (Some ''2''),
              ListQueues ''us-west-2'' 10 (Some ''3''),
              ListQueueTags ''us-west-2'' ''https://host/1/b-TEST'',
              ListQueueTags ''us-west-2'' ''https://host/1/c-TEST'',
              ListQueueTags ''us-west-2'' ''https://host/1/d-TEST'',
              ListQueueTags ''us-west-2'' ''e-TEST''])"
  by (simp add: create_sqs_widgets_def get_all_sqs_queue_urls_def while_True.simps fetch_page_def
        example_boto3_def truthy_def update_def page_call_def is_iow_queue_filter_def upper_def
        char_upper_def queue_widget_of_def queue_name_of_def item_minus_1_def tier_agnostic_def
        queue_title_of_def example_sqs_queues_def example_positioning_def iterate_positioning_def
        queue_metrics_def Let_def)

subsection \<open>A queue without a title\<close>

text \<open>
  C7. When the loop of \<open>create_sqs_widgets\<close> reaches an eligible queue url whose tier
  agnostic name is not a key of \<open>sqs_queues\<close>, the function ends there with a
  \<open>KeyError\<close> for that name, which is a \<open>LookupError\<close>: no list of widgets is returned,
  the urls after it are not looked at (the log of calls ends with the tag lookup of
  this url), and the positioning object is as the queues before left it.
\<close>

theorem create_sqs_widgets_missing_title:
  assumes listing: "get_all_sqs_queue_urls boto3 region calls = Some (Inr response, calls1)"
      and urls: "QueueUrls response = Some (before @ queue_url # rest)"
      and before: "for_queue_url boto3 sqs_queues region deploy_stage before [] pos calls1
                     = (Inr sqs_widgets, pos2, calls2)"
      and eligible: "is_iow_queue_filter boto3 queue_url deploy_stage region calls2
                       = (Inr True, calls3)"
      and name: "queue_name_of queue_url = Inr queue_name"
      and missing: "sqs_queues (tier_agnostic queue_name deploy_stage) = None"
  shows "create_sqs_widgets boto3 sqs_queues region deploy_stage pos calls =
           Some (Inl (KeyError (tier_agnostic queue_name deploy_stage)), pos2, calls3)
         \<and> is_LookupError (KeyError (tier_agnostic queue_name deploy_stage))"
proof -
  have "queue_widget_of sqs_queues region deploy_stage queue_url pos2 =
          Inl (KeyError (tier_agnostic queue_name deploy_stage))"
    using name missing by (simp add: queue_widget_of_def queue_title_of_def Let_def)
  then have "for_queue_url boto3 sqs_queues region deploy_stage (queue_url # rest)
               sqs_widgets pos2 calls2 =
             (Inl (KeyError (tier_agnostic queue_name deploy_stage)), pos2, calls3)"
    using eligible by simp
  then show ?thesis
    using create_sqs_widgets_at[OF listing urls before] by simp
qed

theorem create_sqs_widgets_missing_title_witness:
  "create_sqs_widgets example_boto3 [''e'' \<mapsto> [''title'' \<mapsto> ''Trigger Queue'']]
     ''us-west-2'' ''TEST'' example_positioning [] =
     Some (Inl (KeyError ''c''), example_positioning,
           [ListQueues ''us-west-2'' 10 None, ListQueues ''us-west-2'' 10 (Some ''2''),
            ListQueues ''us-west-2'' 10 (Some ''3''),
            ListQueueTags ''us-west-2'' ''https://host/1/b-TEST'',
            ListQueueTags ''us-west-2'' ''https://host/1/c-TEST''])
   \<and> is_LookupError (KeyError ''c'')"
proof -
  have missing: "[''e'' \<mapsto> [''title'' \<mapsto> ''Trigger Queue'']] (tier_agnostic ''c-TEST'' ''TEST'') = None"
    by (simp add: tier_agnostic_def)
  have c: "tier_agnostic ''c-TEST'' ''TEST'' = ''c''"
    by (simp add: tier_agnostic_def)
  show ?thesis
    using create_sqs_widgets_missing_title
            [where sqs_queues = "[''e'' \<mapsto> [''title'' \<mapsto> ''Trigger Queue'']]",
             OF example_listing example_urls example_before example_eligible example_name missing]
    by (simp add: c)
qed

subsection \<open>The names of a queue\<close>

text \<open>
  C5, as the source has it. For a queue url with a \<open>/\<close> the queue name is what follows
  the last \<open>/\<close>. The tier agnostic name is the queue name with every occurrence of
  \<open>-\<close> followed by the deploy stage removed, found from left to right: up to the first
  occurrence the name is kept, the occurrence is dropped, and what follows it is
  treated in the same way; a name without an occurrence is unchanged. Hence a name
  that ends in the suffix and has it nowhere before loses that suffix, and no more.
\<close>

theorem queue_name_tier_agnostic:
  assumes "CHR ''/'' \<in> set queue_url"
  shows "\<exists>pre queue_name.
           queue_name_of queue_url = Inr queue_name
         \<and> queue_url = pre @ CHR ''/'' # queue_name
         \<and> CHR ''/'' \<notin> set queue_name
         \<and> (\<forall>base rest.
               queue_name = base @ (CHR ''-'' # deploy_stage) @ rest
               \<and> \<not> (\<exists>p s. base @ butlast (CHR ''-'' # deploy_stage)
                            = p @ (CHR ''-'' # deploy_stage) @ s)
               \<longrightarrow> tier_agnostic queue_name deploy_stage = base @ tier_agnostic rest deploy_stage)
         \<and> (\<not> (\<exists>p s. queue_name = p @ (CHR ''-'' # deploy_stage) @ s)
               \<longrightarrow> tier_agnostic queue_name deploy_stage = queue_name)
         \<and> tier_agnostic [] deploy_stage = []"
proof -
  let ?name = "last (str_split CHR ''/'' queue_url)"
  obtain pre where pre: "queue_url = pre @ CHR ''/'' # ?name"
    using last_str_split_present[OF assms] by blast
  have first: "tier_agnostic ?name deploy_stage = base @ tier_agnostic rest deploy_stage"
    if "?name = base @ (CHR ''-'' # deploy_stage) @ rest"
      and "\<not> (\<exists>p s. base @ butlast (CHR ''-'' # deploy_stage)
                     = p @ (CHR ''-'' # deploy_stage) @ s)"
    for base rest
    using that str_replace_first_occurrence[of "CHR ''-'' # deploy_stage" base "[]" rest]
    unfolding tier_agnostic_def str_in_iff by simp
  have none: "tier_agnostic ?name deploy_stage = ?name"
    if "\<not> (\<exists>p s. ?name = p @ (CHR ''-'' # deploy_stage) @ s)"
    using that str_replace_no_occurrence[of "CHR ''-'' # deploy_stage" ?name "[]"]
    unfolding tier_agnostic_def str_in_iff by simp
  show ?thesis
    apply (rule exI[of _ pre])
    apply (rule exI[of _ ?name])
    using pre first none
    by (simp add: queue_name_of_Inr last_str_split_no_sep tier_agnostic_def)
qed

theorem queue_name_tier_agnostic_witness:
  "CHR ''/'' \<in> set ''https://host/579777464052/aqts-capture-error-queue-TEST''
   \<and> queue_name_of ''https://host/579777464052/aqts-capture-error-queue-TEST''
       = Inr ''aqts-capture-error-queue-TEST''
   \<and> tier_agnostic ''aqts-capture-error-queue-TEST'' ''TEST'' = ''aqts-capture-error-queue''"
proof -
  have h: "CHR ''/'' \<in> set ''https://host/579777464052/aqts-capture-error-queue-TEST''"
    by simp
  have n: "queue_name_of ''https://host/579777464052/aqts-capture-error-queue-TEST''
       = Inr ''aqts-capture-error-queue-TEST''"
    by (simp add: queue_name_of_def item_minus_1_def)
  have o: "\<not> (\<exists>p s. ''aqts-capture-error-queue'' @ butlast (CHR ''-'' # ''TEST'')
                      = p @ (CHR ''-'' # ''TEST'') @ s)"
    unfolding str_in_iff[symmetric] by simp
  from queue_name_tier_agnostic[OF h, of "''TEST''"] n
  have "\<forall>base rest.
          ''aqts-capture-error-queue-TEST'' = base @ (CHR ''-'' # ''TEST'') @ rest
          \<and> \<not> (\<exists>p s. base @ butlast (CHR ''-'' # ''TEST'') = p @ (CHR ''-'' # ''TEST'') @ s)
          \<longrightarrow> tier_agnostic ''aqts-capture-error-queue-TEST'' ''TEST''
                = base @ tier_agnostic rest ''TEST''"
    and e: "tier_agnostic [] ''TEST'' = []"
    by auto
  then have "''aqts-capture-error-queue-TEST''
               = ''aqts-capture-error-queue'' @ (CHR ''-'' # ''TEST'') @ []
          \<and> \<not> (\<exists>p s. ''aqts-capture-error-queue'' @ butlast (CHR ''-'' # ''TEST'')
                       = p @ (CHR ''-'' # ''TEST'') @ s)
          \<longrightarrow> tier_agnostic ''aqts-capture-error-queue-TEST'' ''TEST''
                = ''aqts-capture-error-queue'' @ tier_agnostic [] ''TEST''"
    by blast
  with o e have "tier_agnostic ''aqts-capture-error-queue-TEST'' ''TEST''
                   = ''aqts-capture-error-queue''"
    by simp
  with h n show ?thesis by blast
qed

theorem tier_agnostic_counterexample:
  "queue_name_of ''https://host/1/a-TEST-b-TEST'' = Inr ''a-TEST-b-TEST''
   \<and> tier_agnostic ''a-TEST-b-TEST'' ''TEST'' = ''a-b''
   \<and> ''a-b'' \<noteq> ''a-TEST-b''"
  by (simp add: queue_name_of_def item_minus_1_def tier_agnostic_def)

text \<open>
  C9, as the source has it. For a queue url without a \<open>/\<close> the derivation of the name
  raises nothing: \<open>split\<close> gives the url as its only part, and the queue name is the
  whole url.
\<close>

theorem queue_name_without_separator:
  assumes "CHR ''/'' \<notin> set queue_url"
  shows "queue_name_of queue_url = Inr queue_url"
  using assms by (simp add: queue_name_of_Inr str_split_absent)

theorem queue_name_without_separator_witness:
  "CHR ''/'' \<notin> set ''e-TEST'' \<and> queue_name_of ''e-TEST'' = Inr ''e-TEST''"
proof -
  have h: "CHR ''/'' \<notin> set ''e-TEST''" by simp
  from h queue_name_without_separator[OF h] show ?thesis by (rule conjI)
qed

theorem queue_name_without_separator_counterexample:
  "\<not> isl (queue_name_of ''aqts-capture-error-queue-TEST'')
   \<and> projr (queue_name_of ''aqts-capture-error-queue-TEST'') = ''aqts-capture-error-queue-TEST''
   \<and> \<not> isl (queue_widget_of example_sqs_queues ''us-west-2'' ''TEST'' ''e-TEST''
              example_positioning)"
  by (simp add: queue_name_of_def item_minus_1_def queue_widget_of_def tier_agnostic_def
        queue_title_of_def example_sqs_queues_def Let_def)

end
